theory Spec2Isabelle
  imports Main
begin

section \<open>Alerters of docker-alertd (cmd/alerters.go)\<close>

text \<open>
  A shallow embedding of the three alerters of \<^verbatim>\<open>cmd/alerters.go\<close>: \<^verbatim>\<open>Email\<close>,
  \<^verbatim>\<open>Slack\<close> and \<^verbatim>\<open>Pushover\<close>, each with its \<^verbatim>\<open>Valid\<close> and \<^verbatim>\<open>Alert\<close> method.
  Go strings are byte sequences, so they are \<^typ>\<open>string\<close> here. A Go \<^verbatim>\<open>error\<close> result is
  an \<open>err option\<close>, \<open>None\<close> being \<^verbatim>\<open>nil\<close>. The effects of \<^verbatim>\<open>Alert\<close> (log lines, HTTP
  posts, SMTP sends, closed response bodies) are recorded in a \<open>World\<close> that is passed in
  and returned; what the network answers is a parameter of the methods.
\<close>

subsection \<open>Errors\<close>

text \<open>
  Values of Go's \<^verbatim>\<open>error\<close> as the file builds them with \<^verbatim>\<open>github.com/pkg/errors\<close>:
  \<^verbatim>\<open>errors.New(text)\<close> and \<^verbatim>\<open>errors.Wrap(cause, context)\<close>, whose text is the context, a
  colon and a space, and the text of the cause. Errors of the transport are values of the
  same type.
\<close>

datatype err = New string | Wrap err string

fun Error :: "err \<Rightarrow> string" where
  "Error (New s) = s"
| "Error (Wrap cause context) = context @ '': '' @ Error cause"

text \<open>
  The package-level error values that \<^verbatim>\<open>Valid\<close> collects. They are declared in another
  file of the package; their texts are a parameter \<open>msg\<close> of the \<^verbatim>\<open>Valid\<close> methods.
\<close>

datatype sentinel =
    ErrEmailNoSMTP | ErrEmailNoTo | ErrEmailNoFrom | ErrEmailNoUser
  | ErrEmailNoPass | ErrEmailNoPort | ErrEmailNoSubject
  | ErrSlackNoWebHookURL
  | ErrPushoverAPIToken | ErrPushoverUserKey | ErrPushoverAPIURL

subsection \<open>Library functions\<close>

text \<open>\<^verbatim>\<open>strings.Join(elems, sep)\<close>.\<close>

fun Join :: "string list \<Rightarrow> string \<Rightarrow> string" where
  "Join [] sep = []"
| "Join [x] sep = x"
| "Join (x # y # ys) sep = x @ sep @ Join (y # ys) sep"

text \<open>
  \<^verbatim>\<open>strconv.ParseUint(s, 10, 0)\<close> on a 64-bit platform. The loop reads the bytes from the
  left: a byte that is not a decimal digit ends it with 0 and a syntax error, and a digit
  that takes the number beyond 64 bits ends it with the largest value and a range error,
  whatever follows that digit.
\<close>

datatype NumError = ErrSyntax | ErrRange

fun ParseUint_loop :: "string \<Rightarrow> nat \<Rightarrow> nat \<times> NumError option" where
  "ParseUint_loop [] n = (n, None)"
| "ParseUint_loop (c # cs) n =
     (let b = (of_char c :: nat)
      in if 48 \<le> b \<and> b \<le> 57 then
           (if n \<ge> (2 ^ 64 - 1) div 10 + 1 then (2 ^ 64 - 1, Some ErrRange)
            else if n * 10 + (b - 48) > 2 ^ 64 - 1 then (2 ^ 64 - 1, Some ErrRange)
            else ParseUint_loop cs (n * 10 + (b - 48)))
         else (0, Some ErrSyntax))"

definition ParseUint :: "string \<Rightarrow> nat \<times> NumError option" where
  "ParseUint s = (if s = [] then (0, Some ErrSyntax) else ParseUint_loop s 0)"

text \<open>
  \<^verbatim>\<open>strconv.ParseInt(s, 10, 0)\<close>: the sign is taken off, the rest goes through
  \<^verbatim>\<open>ParseUint\<close>; a syntax error gives 0, and a value out of the range of \<^verbatim>\<open>int\<close> gives
  the nearest bound and a range error.
\<close>

definition ParseInt :: "string \<Rightarrow> int \<times> NumError option" where
  "ParseInt s =
     (if s = [] then (0, Some ErrSyntax)
      else
        let neg = (hd s = CHR ''-'');
            s1 = (if hd s = CHR ''+'' then tl s else if hd s = CHR ''-'' then tl s else s);
            un = fst (ParseUint s1);
            err = snd (ParseUint s1)
        in if err = Some ErrSyntax then (0, err)
           else if \<not> neg \<and> un \<ge> 2 ^ 63 then (2 ^ 63 - 1, Some ErrRange)
           else if neg \<and> un > 2 ^ 63 then (- (2 ^ 63), Some ErrRange)
           else (if neg then - int un else int un, None))"

text \<open>
  \<^verbatim>\<open>strconv.Atoi(s)\<close> on a 64-bit platform. A string of 1 to 18 bytes takes the fast
  path: an optional sign, and then every byte must be a decimal digit. Every other string
  goes through \<^verbatim>\<open>ParseInt\<close>.
\<close>

fun Atoi_loop :: "string \<Rightarrow> int \<Rightarrow> int option" where
  "Atoi_loop [] n = Some n"
| "Atoi_loop (ch # cs) n =
     (let b = (of_char ch :: nat)
      in if 48 \<le> b \<and> b \<le> 57 then Atoi_loop cs (n * 10 + int (b - 48)) else None)"

definition Atoi :: "string \<Rightarrow> int \<times> NumError option" where
  "Atoi s =
     (let sLen = length s
      in if 0 < sLen \<and> sLen < 19 then
           (let signed = (hd s = CHR ''-'' \<or> hd s = CHR ''+'');
                s1 = (if signed then tl s else s)
            in if signed \<and> length s1 < 1 then (0, Some ErrSyntax)
               else case Atoi_loop s1 0 of
                      None \<Rightarrow> (0, Some ErrSyntax)
                    | Some n \<Rightarrow> (if hd s = CHR ''-'' then - n else n, None))
         else ParseInt s)"

text \<open>
  What the claims call a numeric \<^verbatim>\<open>Port\<close>: an optional sign and then one or more decimal
  digits, nothing else.
\<close>

definition is_digit :: "char \<Rightarrow> bool" where
  "is_digit c = (48 \<le> (of_char c :: nat) \<and> (of_char c :: nat) \<le> 57)"

definition numeric :: "string \<Rightarrow> bool" where
  "numeric s =
     (case s of
        [] \<Rightarrow> False
      | c # cs \<Rightarrow>
          (if c = CHR ''-'' \<or> c = CHR ''+'' then cs \<noteq> [] \<and> list_all is_digit cs
           else list_all is_digit (c # cs)))"

text \<open>
  \<^verbatim>\<open>url.QueryEscape(s)\<close>: letters, digits and \<^verbatim>\<open>-_.~\<close> stay, a space becomes \<^verbatim>\<open>+\<close>, and
  every other byte becomes \<^verbatim>\<open>%\<close> and two upper-case hexadecimal digits.
\<close>

definition shouldEscape :: "char \<Rightarrow> bool" where
  "shouldEscape c =
     (let n = (of_char c :: nat)
      in if (97 \<le> n \<and> n \<le> 122) \<or> (65 \<le> n \<and> n \<le> 90) \<or> (48 \<le> n \<and> n \<le> 57) then False
         else if c = CHR ''-'' \<or> c = CHR ''_'' \<or> c = CHR ''.'' \<or> c = CHR ''~'' then False
         else True)"

definition upperhex :: string where
  "upperhex = ''0123456789ABCDEF''"

fun QueryEscape :: "string \<Rightarrow> string" where
  "QueryEscape [] = []"
| "QueryEscape (c # cs) =
     (if shouldEscape c then
        (if c = CHR '' '' then CHR ''+'' # QueryEscape cs
         else CHR ''%'' # upperhex ! ((of_char c :: nat) div 16)
                # upperhex ! ((of_char c :: nat) mod 16) # QueryEscape cs)
      else c # QueryEscape cs)"

subsection \<open>Data model\<close>

text \<open>
  Modelled from the spec: the \<^verbatim>\<open>Alert\<close> struct is declared in another file of the
  package. It has the primary body text and the ordered subject addendums. Its methods
  \<^verbatim>\<open>Dump\<close> and \<^verbatim>\<open>DumpEmail\<close> are parameters of the alerters: each takes the alert
  behind the pointer and returns the rendering and the alert as the call leaves it.
\<close>

record Alert =
  Message :: string
  SubjectAddendums :: "string list"

type_synonym render = "Alert \<Rightarrow> string \<times> Alert"

text \<open>
  Modelled from the spec: the methods \<^verbatim>\<open>Dump\<close> and \<^verbatim>\<open>DumpEmail\<close> of \<^verbatim>\<open>Alert\<close> are declared
  in another file of the package. The spec has each produce a rendering of the alert
  (the plain text, the HTML), and has an alert immutable once constructed: such a method
  reads the alert and leaves it as it is.
\<close>

definition read_only :: "(Alert \<Rightarrow> string) \<Rightarrow> render" where
  "read_only rendering a = (rendering a, a)"

text \<open>
  The \<^verbatim>\<open>Email\<close> struct. \<^verbatim>\<open>To\<close> is a slice: \<open>None\<close> is the nil slice of the zero value,
  which \<^verbatim>\<open>reflect.DeepEqual\<close> tells apart from an empty slice that is not nil.
\<close>

record Email =
  SMTP :: string
  Username :: string
  Password :: string
  Port :: string
  From :: string
  To :: "string list option"
  Subject :: string

record Slack =
  WebhookURL :: string

record Pushover =
  APIToken :: string
  UserKey :: string
  APIURL :: string

text \<open>The elements of a slice; \<^verbatim>\<open>len\<close> and \<^verbatim>\<open>strings.Join\<close> take nil as empty.\<close>

fun elems :: "'a list option \<Rightarrow> 'a list" where
  "elems None = []"
| "elems (Some xs) = xs"

text \<open>The zero values \<^verbatim>\<open>Email{}\<close>, \<^verbatim>\<open>Slack{}\<close> and \<^verbatim>\<open>Pushover{}\<close>.\<close>

definition Email_zero :: Email where
  "Email_zero = \<lparr>SMTP = [], Username = [], Password = [], Port = [], From = [],
     To = None, Subject = []\<rparr>"

definition Slack_zero :: Slack where
  "Slack_zero = \<lparr>WebhookURL = []\<rparr>"

definition Pushover_zero :: Pushover where
  "Pushover_zero = \<lparr>APIToken = [], UserKey = [], APIURL = []\<rparr>"

text \<open>
  A \<^verbatim>\<open>gomail\<close> message (headers, and the body with its content type) and dialer
  (\<^verbatim>\<open>NewPlainDialer\<close> turns SSL on for port 465).
\<close>

record GoMessage =
  headers :: "string \<rightharpoonup> string list"
  body_type :: string
  body :: string

record Dialer =
  dHost :: string
  dPort :: int
  dUsername :: string
  dPassword :: string
  dSSL :: bool

definition NewMessage :: GoMessage where
  "NewMessage = \<lparr>headers = Map.empty, body_type = [], body = []\<rparr>"

definition NewPlainDialer :: "string \<Rightarrow> int \<Rightarrow> string \<Rightarrow> string \<Rightarrow> Dialer" where
  "NewPlainDialer host port username password =
     \<lparr>dHost = host, dPort = port, dUsername = username, dPassword = password,
      dSSL = (port = 465)\<rparr>"

text \<open>An HTTP POST, and the response of one that completed.\<close>

record HTTPRequest =
  req_url :: string
  req_content_type :: string
  req_body :: string

record HTTPResponse =
  StatusCode :: int
  resp_body :: string

text \<open>What an \<^verbatim>\<open>Alert\<close> call leaves behind, in order.\<close>

record World =
  logged :: "string list"
  posts :: "HTTPRequest list"
  mails :: "(Dialer \<times> GoMessage) list"
  closed :: "HTTPResponse list"

text \<open>What an \<^verbatim>\<open>Alert\<close> call returns, with the alert and the world as it leaves them.\<close>

record Outcome =
  returned :: "err option"
  alert_after :: Alert
  world_after :: World

type_synonym http_post = "HTTPRequest \<Rightarrow> err + HTTPResponse"
type_synonym dial_and_send = "Dialer \<Rightarrow> GoMessage \<Rightarrow> err option"

definition Println :: "string \<Rightarrow> World \<Rightarrow> World" where
  "Println line w = w\<lparr>logged := logged w @ [line]\<rparr>"

text \<open>The double quote character of the JSON body.\<close>

definition DQ :: string where
  "DQ = [CHR 0x22]"

subsection \<open>Email\<close>

text \<open>
  The subject loop of \<^verbatim>\<open>Email.Alert\<close>: every addendum and a space are appended, and the
  ellipsis after the addendum at index 2. The loop goes on after it.
\<close>

fun subject_loop :: "string list \<Rightarrow> nat \<Rightarrow> string \<Rightarrow> string" where
  "subject_loop [] i subject = subject"
| "subject_loop (x # xs) i subject =
     (let subject = subject @ x @ '' '';
          subject = (if i = 2 then subject @ ''...'' else subject)
      in subject_loop xs (Suc i) subject)"

definition Email_subject :: "Email \<Rightarrow> Alert \<Rightarrow> string" where
  "Email_subject e a = subject_loop (SubjectAddendums a) 0 (Subject e @ '': '')"

text \<open>The message that \<^verbatim>\<open>Email.Alert\<close> builds, and the dialer it sends it with.\<close>

definition Email_message :: "render \<Rightarrow> Email \<Rightarrow> Alert \<Rightarrow> GoMessage" where
  "Email_message DumpEmail e a =
     (let subject = Email_subject e a;
          to = Join (elems (To e)) '','';
          m = NewMessage;
          m = m\<lparr>body_type := ''text/html'', body := fst (DumpEmail a)\<rparr>;
          m = m\<lparr>headers := (headers m)(''From'' \<mapsto> [From e], ''To'' \<mapsto> [to],
                 ''Subject'' \<mapsto> [subject])\<rparr>
      in m)"

definition Email_dialer :: "Email \<Rightarrow> Dialer" where
  "Email_dialer e =
     (let port = fst (Atoi (Port e))
      in NewPlainDialer (SMTP e) port (Username e) (Password e))"

definition Email_Alert ::
  "render \<Rightarrow> dial_and_send \<Rightarrow> Email \<Rightarrow> Alert \<Rightarrow> World \<Rightarrow> Outcome" where
  "Email_Alert DumpEmail DialAndSend e a w =
     (let m = Email_message DumpEmail e a;
          a = snd (DumpEmail a);
          d = Email_dialer e;
          w = w\<lparr>mails := mails w @ [(d, m)]\<rparr>
      in case DialAndSend d m of
           Some cause \<Rightarrow>
             \<lparr>returned = Some (Wrap cause ''error sending email''), alert_after = a,
              world_after = w\<rparr>
         | None \<Rightarrow>
             \<lparr>returned = None, alert_after = a,
              world_after = Println ''alert email sent'' w\<rparr>)"

text \<open>The list \<^verbatim>\<open>errString\<close> of \<^verbatim>\<open>Email.Valid\<close> after its seven checks.\<close>

definition Email_errString :: "(sentinel \<Rightarrow> string) \<Rightarrow> Email \<Rightarrow> string list" where
  "Email_errString msg e =
     (let errString = [];
          errString = (if SMTP e = [] then errString @ [msg ErrEmailNoSMTP] else errString);
          errString = (if length (elems (To e)) < 1 then errString @ [msg ErrEmailNoTo]
                       else errString);
          errString = (if From e = [] then errString @ [msg ErrEmailNoFrom] else errString);
          errString = (if Username e = [] then errString @ [msg ErrEmailNoUser]
                       else errString);
          errString = (if Password e = [] then errString @ [msg ErrEmailNoPass]
                       else errString);
          errString = (if Port e = [] then errString @ [msg ErrEmailNoPort] else errString);
          errString = (if Subject e = [] then errString @ [msg ErrEmailNoSubject]
                       else errString)
      in errString)"

definition Email_Valid :: "(sentinel \<Rightarrow> string) \<Rightarrow> Email \<Rightarrow> err option" where
  "Email_Valid msg e =
     (if Email_zero = e then None
      else
        let errString = Email_errString msg e
        in if length errString = 0 then None
           else
             let delimErr = Join errString '', '';
                 err = New delimErr
             in Some (Wrap err ''email settings validation fail''))"

subsection \<open>Slack\<close>

definition Slack_Valid :: "(sentinel \<Rightarrow> string) \<Rightarrow> Slack \<Rightarrow> err option" where
  "Slack_Valid msg s =
     (if Slack_zero = s then None
      else
        let errString = [];
            errString = (if WebhookURL s = [] then errString @ [msg ErrSlackNoWebHookURL]
                         else errString)
        in if length errString = 0 then None
           else
             let delimErr = Join errString '', '';
                 err = New delimErr
             in Some (Wrap err ''slack settings validation fail''))"

text \<open>The POST that \<^verbatim>\<open>Slack.Alert\<close> makes.\<close>

definition Slack_request :: "render \<Rightarrow> Slack \<Rightarrow> Alert \<Rightarrow> HTTPRequest" where
  "Slack_request Dump s a =
     (let alerts = fst (Dump a);
          json = ''{'' @ DQ @ ''text'' @ DQ @ '': '' @ DQ @ alerts @ DQ @ ''}''
      in \<lparr>req_url = WebhookURL s, req_content_type = ''application/json'',
          req_body = json\<rparr>)"

definition Slack_Alert :: "render \<Rightarrow> http_post \<Rightarrow> Slack \<Rightarrow> Alert \<Rightarrow> World \<Rightarrow> Outcome" where
  "Slack_Alert Dump Post s a w =
     (let req = Slack_request Dump s a;
          a = snd (Dump a);
          w = w\<lparr>posts := posts w @ [req]\<rparr>
      in case Post req of
           Inl err \<Rightarrow> \<lparr>returned = Some err, alert_after = a, world_after = w\<rparr>
         | Inr resp \<Rightarrow>
             (let w = Println ''sent alert to slack'' w
              in \<lparr>returned = None, alert_after = a,
                  world_after = w\<lparr>closed := closed w @ [resp]\<rparr>\<rparr>))"

subsection \<open>Pushover\<close>

definition Pushover_Valid :: "(sentinel \<Rightarrow> string) \<Rightarrow> Pushover \<Rightarrow> err option" where
  "Pushover_Valid msg p =
     (if Pushover_zero = p then None
      else
        let errString = [];
            errString = (if APIToken p = [] then errString @ [msg ErrPushoverAPIToken]
                         else errString);
            errString = (if UserKey p = [] then errString @ [msg ErrPushoverUserKey]
                         else errString);
            errString = (if APIURL p = [] then errString @ [msg ErrPushoverAPIURL]
                         else errString)
        in if length errString = 0 then None
           else
             let delimErr = Join errString '', '';
                 err = New delimErr
             in Some (Wrap err ''pushover settings validation fail''))"

text \<open>The POST that \<^verbatim>\<open>Pushover.Alert\<close> makes. Only the dump goes through
  \<^verbatim>\<open>url.QueryEscape\<close>; the token and the user key are formatted as they are.\<close>

definition Pushover_request :: "render \<Rightarrow> Pushover \<Rightarrow> Alert \<Rightarrow> HTTPRequest" where
  "Pushover_request Dump p a =
     (let alerts = fst (Dump a);
          parsedBody = ''token='' @ APIToken p @ ''&user='' @ UserKey p @ ''&message=''
                         @ QueryEscape alerts
      in \<lparr>req_url = APIURL p, req_content_type = ''application/x-www-form-urlencoded'',
          req_body = parsedBody\<rparr>)"

definition Pushover_Alert ::
  "render \<Rightarrow> http_post \<Rightarrow> Pushover \<Rightarrow> Alert \<Rightarrow> World \<Rightarrow> Outcome" where
  "Pushover_Alert Dump Post p a w =
     (let req = Pushover_request Dump p a;
          a = snd (Dump a);
          w = w\<lparr>posts := posts w @ [req]\<rparr>
      in case Post req of
           Inl err \<Rightarrow> \<lparr>returned = Some err, alert_after = a, world_after = w\<rparr>
         | Inr resp \<Rightarrow>
             (let w = Println ''sent alert to pushover'' w
              in \<lparr>returned = None, alert_after = a,
                  world_after = w\<lparr>closed := closed w @ [resp]\<rparr>\<rparr>))"


section \<open>Properties\<close>

subsection \<open>What an Alert call does\<close>

lemma subject_loop_from3:
  "3 \<le> i \<Longrightarrow> subject_loop xs i s = s @ concat (map (\<lambda>x. x @ '' '') xs)"
  by (induction xs arbitrary: i s) auto

lemma subject_loop_0:
  "subject_loop xs 0 s =
     s @ concat (map (\<lambda>x. x @ '' '') (take 3 xs))
       @ (if 3 \<le> length xs then ''...'' else [])
       @ concat (map (\<lambda>x. x @ '' '') (drop 3 xs))"
proof (cases xs)
  case Nil
  then show ?thesis by simp
next
  case c1: (Cons x1 r1)
  show ?thesis
  proof (cases r1)
    case Nil
    with c1 show ?thesis by simp
  next
    case c2: (Cons x2 r2)
    show ?thesis
    proof (cases r2)
      case Nil
      with c1 c2 show ?thesis by simp
    next
      case (Cons x3 r3)
      with c1 c2 show ?thesis by (simp add: subject_loop_from3 numeral_eq_Suc)
    qed
  qed
qed

text \<open>
  The subject as the loop builds it: every addendum is in it, and the ellipsis stands
  after the third one as soon as there are three.
\<close>

lemma Email_subject_eq:
  "Email_subject e a =
     Subject e @ '': '' @ concat (map (\<lambda>x. x @ '' '') (take 3 (SubjectAddendums a)))
       @ (if 3 \<le> length (SubjectAddendums a) then ''...'' else [])
       @ concat (map (\<lambda>x. x @ '' '') (drop 3 (SubjectAddendums a)))"
  unfolding Email_subject_def subject_loop_0 by simp

lemma Email_message_Subject:
  "headers (Email_message DumpEmail e a) ''Subject'' = Some [Email_subject e a]"
  by (simp add: Email_message_def Let_def)

lemma Email_Alert_mails:
  "mails (world_after (Email_Alert DumpEmail DialAndSend e a w)) =
     mails w @ [(Email_dialer e, Email_message DumpEmail e a)]"
  by (simp add: Email_Alert_def Let_def Println_def split: option.splits)

lemma Email_Alert_returned:
  "returned (Email_Alert DumpEmail DialAndSend e a w) =
     (case DialAndSend (Email_dialer e) (Email_message DumpEmail e a) of
        None \<Rightarrow> None
      | Some cause \<Rightarrow> Some (Wrap cause ''error sending email''))"
  by (simp add: Email_Alert_def Let_def split: option.splits)

lemma Email_Alert_logged:
  "logged (world_after (Email_Alert DumpEmail DialAndSend e a w)) =
     (case DialAndSend (Email_dialer e) (Email_message DumpEmail e a) of
        None \<Rightarrow> logged w @ [''alert email sent'']
      | Some cause \<Rightarrow> logged w)"
  by (simp add: Email_Alert_def Let_def Println_def split: option.splits)

lemma Email_Alert_alert_after:
  "alert_after (Email_Alert DumpEmail DialAndSend e a w) = snd (DumpEmail a)"
  by (simp add: Email_Alert_def Let_def split: option.splits)

lemma Slack_Alert_posts:
  "posts (world_after (Slack_Alert Dump Post s a w)) = posts w @ [Slack_request Dump s a]"
  by (simp add: Slack_Alert_def Let_def Println_def split: sum.splits)

lemma Slack_Alert_returned:
  "returned (Slack_Alert Dump Post s a w) =
     (case Post (Slack_request Dump s a) of Inl cause \<Rightarrow> Some cause | Inr resp \<Rightarrow> None)"
  by (simp add: Slack_Alert_def Let_def split: sum.splits)

lemma Slack_Alert_alert_after:
  "alert_after (Slack_Alert Dump Post s a w) = snd (Dump a)"
  by (simp add: Slack_Alert_def Let_def split: sum.splits)

lemma Pushover_Alert_posts:
  "posts (world_after (Pushover_Alert Dump Post p a w)) =
     posts w @ [Pushover_request Dump p a]"
  by (simp add: Pushover_Alert_def Let_def Println_def split: sum.splits)

lemma Pushover_Alert_returned:
  "returned (Pushover_Alert Dump Post p a w) =
     (case Post (Pushover_request Dump p a) of Inl cause \<Rightarrow> Some cause | Inr resp \<Rightarrow> None)"
  by (simp add: Pushover_Alert_def Let_def split: sum.splits)

lemma Pushover_Alert_alert_after:
  "alert_after (Pushover_Alert Dump Post p a w) = snd (Dump a)"
  by (simp add: Pushover_Alert_def Let_def split: sum.splits)

subsection \<open>Validation helpers\<close>

lemma Slack_zero_iff: "(Slack_zero = s) = (WebhookURL s = [])"
  by (cases s) (auto simp: Slack_zero_def)

lemma Email_zero_Port: "port \<noteq> [] \<Longrightarrow> Email_zero \<noteq> e\<lparr>Port := port\<rparr>"
  by (cases e) (auto simp: Email_zero_def)

lemma Email_errString_Port:
  "port \<noteq> [] \<Longrightarrow>
     Email_errString msg (e\<lparr>Port := port\<rparr>) = Email_errString msg (e\<lparr>Port := ''25''\<rparr>)"
  by (simp add: Email_errString_def)

lemma Email_Valid_Port:
  assumes ne: "port \<noteq> []"
  shows "Email_Valid msg (e\<lparr>Port := port\<rparr>) = Email_Valid msg (e\<lparr>Port := ''25''\<rparr>)"
proof -
  have l: "Email_errString msg (e\<lparr>Port := port\<rparr>) = Email_errString msg (e\<lparr>Port := ''25''\<rparr>)"
    by (rule Email_errString_Port) (rule ne)
  have nz: "Email_zero \<noteq> e\<lparr>Port := port\<rparr>" "Email_zero \<noteq> e\<lparr>Port := ''25''\<rparr>"
    using ne by (simp_all add: Email_zero_Port)
  show ?thesis
    unfolding Email_Valid_def using nz by (simp only: l if_False)
qed

lemma ParseInt_syntax_zero: "snd (ParseInt s) = Some ErrSyntax \<Longrightarrow> fst (ParseInt s) = 0"
  by (simp add: ParseInt_def Let_def split: if_splits)

lemma ParseInt_range_bound:
  "snd (ParseInt s) = Some ErrRange \<Longrightarrow>
     fst (ParseInt s) = 2 ^ 63 - 1 \<or> fst (ParseInt s) = - (2 ^ 63)"
  by (simp add: ParseInt_def Let_def split: if_splits)

lemma Atoi_syntax_zero: "snd (Atoi s) = Some ErrSyntax \<Longrightarrow> fst (Atoi s) = 0"
  by (auto simp: Atoi_def Let_def ParseInt_syntax_zero split: if_splits option.splits)

lemma Atoi_range_bound:
  "snd (Atoi s) = Some ErrRange \<Longrightarrow> fst (Atoi s) = 2 ^ 63 - 1 \<or> fst (Atoi s) = - (2 ^ 63)"
  by (auto simp: Atoi_def Let_def split: if_splits option.splits dest: ParseInt_range_bound)

lemma Email_dialer_Port:
  "Email_dialer (e\<lparr>Port := port\<rparr>) =
     NewPlainDialer (SMTP e) (fst (Atoi port)) (Username e) (Password e)"
  by (simp add: Email_dialer_def Let_def)

lemma Email_message_Port:
  "Email_message DumpEmail (e\<lparr>Port := port\<rparr>) a =
     Email_message DumpEmail (e\<lparr>Port := []\<rparr>) a"
  by (simp add: Email_message_def Email_subject_def)

lemma Email_Alert_Port:
  assumes "fst (Atoi p) = fst (Atoi q)"
  shows "Email_Alert DumpEmail DialAndSend (e\<lparr>Port := p\<rparr>) a w =
         Email_Alert DumpEmail DialAndSend (e\<lparr>Port := q\<rparr>) a w"
proof -
  have d: "Email_dialer (e\<lparr>Port := p\<rparr>) = Email_dialer (e\<lparr>Port := q\<rparr>)"
    using assms by (simp only: Email_dialer_Port)
  have m: "Email_message DumpEmail (e\<lparr>Port := p\<rparr>) a =
           Email_message DumpEmail (e\<lparr>Port := q\<rparr>) a"
    by (simp only: Email_message_Port [where port = p] Email_message_Port [where port = q])
  show ?thesis
    unfolding Email_Alert_def by (simp only: d m)
qed

lemma Atoi_loop_digits: "Atoi_loop s n = Some m \<Longrightarrow> list_all is_digit s"
  by (induction s arbitrary: n) (auto simp: is_digit_def Let_def split: if_splits)

lemma ParseUint_loop_digits: "snd (ParseUint_loop s n) = None \<Longrightarrow> list_all is_digit s"
  by (induction s arbitrary: n) (auto simp: is_digit_def Let_def split: if_splits)

lemma ParseUint_loop_range:
  "snd (ParseUint_loop s n) = Some ErrRange \<Longrightarrow> fst (ParseUint_loop s n) = 2 ^ 64 - 1"
  by (induction s arbitrary: n) (auto simp: Let_def split: if_splits)

lemma ParseUint_cases:
  "snd (ParseUint s) = Some ErrSyntax
   \<or> (snd (ParseUint s) = Some ErrRange \<and> fst (ParseUint s) = 2 ^ 64 - 1)
   \<or> (snd (ParseUint s) = None \<and> s \<noteq> [] \<and> list_all is_digit s)"
proof (cases "snd (ParseUint s)")
  case None
  then show ?thesis
    by (auto simp: ParseUint_def dest: ParseUint_loop_digits split: if_splits)
next
  case (Some k)
  then show ?thesis
    by (cases k) (auto simp: ParseUint_def dest: ParseUint_loop_range split: if_splits)
qed

lemma ParseInt_numeric: "snd (ParseInt s) = None \<Longrightarrow> numeric s"
proof (cases s)
  case Nil
  then show "snd (ParseInt s) = None \<Longrightarrow> numeric s"
    by (simp add: ParseInt_def)
next
  case (Cons c cs)
  assume ok: "snd (ParseInt s) = None"
  show "numeric s"
  proof (cases "c = CHR ''-'' \<or> c = CHR ''+''")
    case True
    from ParseUint_cases [of cs] ok Cons True show ?thesis
      by (auto simp: ParseInt_def Let_def numeric_def split: if_splits)
  next
    case False
    from ParseUint_cases [of "c # cs"] ok Cons False show ?thesis
      by (auto simp: ParseInt_def Let_def numeric_def split: if_splits)
  qed
qed

lemma Atoi_numeric: "snd (Atoi s) = None \<Longrightarrow> numeric s"
proof (cases s)
  case Nil
  then show "snd (Atoi s) = None \<Longrightarrow> numeric s"
    by (simp add: Atoi_def ParseInt_def)
next
  case (Cons c cs)
  assume ok: "snd (Atoi s) = None"
  show "numeric s"
  proof (cases "length s < 19")
    case True
    with ok Cons show ?thesis
      by (auto simp: Atoi_def Let_def numeric_def is_digit_def dest: Atoi_loop_digits
          split: if_splits option.splits)
  next
    case False
    with ok Cons have "snd (ParseInt s) = None"
      by (simp add: Atoi_def Let_def)
    then show ?thesis by (rule ParseInt_numeric)
  qed
qed

lemma Atoi_error_cases:
  "snd (Atoi s) \<noteq> None \<Longrightarrow>
     fst (Atoi s) = 0 \<or> fst (Atoi s) = 2 ^ 63 - 1 \<or> fst (Atoi s) = - (2 ^ 63)"
proof -
  assume "snd (Atoi s) \<noteq> None"
  then obtain k where k: "snd (Atoi s) = Some k" by auto
  show ?thesis
  proof (cases k)
    case ErrSyntax
    with k show ?thesis by (simp add: Atoi_syntax_zero)
  next
    case ErrRange
    with k Atoi_range_bound [of s] show ?thesis by blast
  qed
qed

text \<open>
  An \<^verbatim>\<open>Email\<close> whose \<^verbatim>\<open>To\<close> is an empty slice that is not nil, and whose other fields
  are empty, is not the zero value for \<^verbatim>\<open>reflect.DeepEqual\<close>: it fails validation.
\<close>

lemma Email_Valid_empty_To_not_nil:
  "Email_Valid msg \<lparr>SMTP = [], Username = [], Password = [], Port = [], From = [],
     To = Some [], Subject = []\<rparr> \<noteq> None"
  by (simp add: Email_Valid_def Email_zero_def Email_errString_def)

subsection \<open>The claims\<close>

text \<open>
  C1. The subject of \<^verbatim>\<open>Email.Alert\<close> for the prefix \<^verbatim>\<open>ALERT\<close>. With the four addendums
  a, b, c, d the claim gives \<^verbatim>\<open>ALERT: a b c ...\<close>; the Subject header of the message
  that the code sends is \<^verbatim>\<open>ALERT: a b c ...d \<close>, since the loop does not stop at the
  third addendum. With the two addendums a, b the header is \<^verbatim>\<open>ALERT: a b \<close>, as claimed.
\<close>

theorem Email_Alert_subject_four_addendums:
  "headers (snd (last (mails (world_after
      (Email_Alert DumpEmail DialAndSend (e\<lparr>Subject := ''ALERT''\<rparr>)
         (a\<lparr>SubjectAddendums := [''a'', ''b'', ''c'', ''d'']\<rparr>) w))))) ''Subject''
     = Some [''ALERT: a b c ...d '']
   \<and> headers (snd (last (mails (world_after
      (Email_Alert DumpEmail DialAndSend (e\<lparr>Subject := ''ALERT''\<rparr>)
         (a\<lparr>SubjectAddendums := [''a'', ''b'', ''c'', ''d'']\<rparr>) w))))) ''Subject''
     \<noteq> Some [''ALERT: a b c ...'']
   \<and> headers (snd (last (mails (world_after
      (Email_Alert DumpEmail DialAndSend (e\<lparr>Subject := ''ALERT''\<rparr>)
         (a\<lparr>SubjectAddendums := [''a'', ''b'']\<rparr>) w))))) ''Subject''
     = Some [''ALERT: a b '']"
  by (simp add: Email_Alert_mails Email_message_Subject Email_subject_def)

text \<open>
  C2, as claimed, fails: the body of \<^verbatim>\<open>Pushover.Alert\<close> for the token \<^verbatim>\<open>a&b\<close> has the
  token as it is, and not form-urlencoded (\<^verbatim>\<open>a%26b\<close>).
\<close>

theorem Pushover_Alert_token_not_escaped:
  "map req_body (posts (world_after
     (Pushover_Alert (Pair ''x'') (\<lambda>req. Inr \<lparr>StatusCode = 200, resp_body = ''ok''\<rparr>)
        \<lparr>APIToken = ''a&b'', UserKey = ''U'', APIURL = ''https://api''\<rparr>
        \<lparr>Message = [], SubjectAddendums = []\<rparr>
        \<lparr>logged = [], posts = [], mails = [], closed = []\<rparr>)))
     = [''token=a&b&user=U&message=x'']
   \<and> map req_body (posts (world_after
     (Pushover_Alert (Pair ''x'') (\<lambda>req. Inr \<lparr>StatusCode = 200, resp_body = ''ok''\<rparr>)
        \<lparr>APIToken = ''a&b'', UserKey = ''U'', APIURL = ''https://api''\<rparr>
        \<lparr>Message = [], SubjectAddendums = []\<rparr>
        \<lparr>logged = [], posts = [], mails = [], closed = []\<rparr>)))
     \<noteq> [''token='' @ QueryEscape ''a&b'' @ ''&user='' @ QueryEscape ''U'' @ ''&message=''
          @ QueryEscape ''x'']"
  by (simp add: Pushover_Alert_posts Pushover_request_def shouldEscape_def upperhex_def)

text \<open>
  C2, amended. For every Pushover configuration and alert, \<^verbatim>\<open>Pushover.Alert\<close> posts to
  the API URL, with the content type \<^verbatim>\<open>application/x-www-form-urlencoded\<close>, a body of
  exactly the form \<^verbatim>\<open>token=<token>&user=<key>&message=<urlencoded dump>\<close>: the token and the
  user key as they are, and only the dump form-urlencoded. For the token T, the user
  key U and the dump \<^verbatim>\<open>host X failed\<close> the body is \<^verbatim>\<open>token=T&user=U&message=host+X+failed\<close>.
\<close>

theorem Pushover_Alert_body:
  "posts (world_after (Pushover_Alert Dump Post p a w)) =
     posts w @ [\<lparr>req_url = APIURL p, req_content_type = ''application/x-www-form-urlencoded'',
       req_body = ''token='' @ APIToken p @ ''&user='' @ UserKey p @ ''&message=''
                    @ QueryEscape (fst (Dump a))\<rparr>]
   \<and> map req_body (posts (world_after
       (Pushover_Alert (\<lambda>a. (''host X failed'', f a)) Post
          (p\<lparr>APIToken := ''T'', UserKey := ''U''\<rparr>) a (w\<lparr>posts := []\<rparr>))))
     = [''token=T&user=U&message=host+X+failed'']"
  by (simp add: Pushover_Alert_posts Pushover_request_def shouldEscape_def upperhex_def)

text \<open>
  C3. The zero value of each of the three configurations (every field unset, the
  \<^verbatim>\<open>To\<close> slice nil) is valid: \<^verbatim>\<open>Valid\<close> returns nil.
\<close>

theorem Valid_zero_value:
  "Email_Valid msg \<lparr>SMTP = [], Username = [], Password = [], Port = [], From = [],
     To = None, Subject = []\<rparr> = None
   \<and> Slack_Valid msg \<lparr>WebhookURL = []\<rparr> = None
   \<and> Pushover_Valid msg \<lparr>APIToken = [], UserKey = [], APIURL = []\<rparr> = None"
  by (simp add: Email_Valid_def Email_zero_def Slack_Valid_def Slack_zero_def
      Pushover_Valid_def Pushover_zero_def)

text \<open>
  C4. For an \<^verbatim>\<open>Email\<close> that misses exactly \<^verbatim>\<open>From\<close> and \<^verbatim>\<open>Password\<close>, \<^verbatim>\<open>Valid\<close> collects
  the From-missing and the Password-missing message and none of the other five, and
  returns the error whose text is \<^verbatim>\<open>email settings validation fail: \<close> followed by the
  two messages joined with a comma and a space. The texts of the messages are those of
  \<open>msg\<close>, whatever they are.
\<close>

theorem Email_Valid_missing_From_Password:
  assumes "SMTP e \<noteq> []" and "elems (To e) \<noteq> []" and "From e = []" and "Username e \<noteq> []"
    and "Password e = []" and "Port e \<noteq> []" and "Subject e \<noteq> []"
  shows "Email_errString msg e = [msg ErrEmailNoFrom, msg ErrEmailNoPass]
    \<and> Email_Valid msg e =
        Some (Wrap (New (Join [msg ErrEmailNoFrom, msg ErrEmailNoPass] '', ''))
                ''email settings validation fail'')
    \<and> map_option Error (Email_Valid msg e) =
        Some (''email settings validation fail: '' @ msg ErrEmailNoFrom @ '', ''
                @ msg ErrEmailNoPass)"
proof -
  have l: "Email_errString msg e = [msg ErrEmailNoFrom, msg ErrEmailNoPass]"
    using assms by (simp add: Email_errString_def)
  have nz: "Email_zero \<noteq> e"
    using assms(1) by (auto simp: Email_zero_def)
  have v: "Email_Valid msg e =
        Some (Wrap (New (Join [msg ErrEmailNoFrom, msg ErrEmailNoPass] '', ''))
                ''email settings validation fail'')"
    using nz by (simp add: Email_Valid_def l)
  show ?thesis using l v by simp
qed

theorem Email_Valid_missing_From_Password_witness:
  "map_option Error (Email_Valid
      (\<lambda>s. case s of ErrEmailNoFrom \<Rightarrow> ''no from address''
            | ErrEmailNoPass \<Rightarrow> ''no password'' | _ \<Rightarrow> ''other'')
      \<lparr>SMTP = ''smtp.example.com'', Username = ''user'', Password = [], Port = ''587'',
       From = [], To = Some [''ops@example.com''], Subject = ''ALERT''\<rparr>)
   = Some ''email settings validation fail: no from address, no password''"
  using Email_Valid_missing_From_Password
    [of "\<lparr>SMTP = ''smtp.example.com'', Username = ''user'', Password = [], Port = ''587'',
       From = [], To = Some [''ops@example.com''], Subject = ''ALERT''\<rparr>"
      "(\<lambda>s. case s of ErrEmailNoFrom \<Rightarrow> ''no from address''
            | ErrEmailNoPass \<Rightarrow> ''no password'' | _ \<Rightarrow> ''other'')"]
  by simp

text \<open>
  C5. For every alert, \<^verbatim>\<open>Slack.Alert\<close> posts to the webhook URL, with the content type
  \<^verbatim>\<open>application/json\<close>, the body that is an opening brace, \<^verbatim>\<open>text\<close> in double quotes, a
  colon, a space, and the dump as it is in double quotes, and a closing brace: nothing
  of the dump is escaped. For the dump \<^verbatim>\<open>status: down\<close> that body has \<^verbatim>\<open>status: down\<close>
  between the quotes.
\<close>

theorem Slack_Alert_body:
  "posts (world_after (Slack_Alert Dump Post s a w)) =
     posts w @ [\<lparr>req_url = WebhookURL s, req_content_type = ''application/json'',
       req_body = ''{'' @ DQ @ ''text'' @ DQ @ '': '' @ DQ @ fst (Dump a) @ DQ @ ''}''\<rparr>]
   \<and> map req_body (posts (world_after
       (Slack_Alert (\<lambda>a. (''status: down'', f a)) Post s a (w\<lparr>posts := []\<rparr>))))
     = [[CHR ''{'', CHR 0x22] @ ''text'' @ [CHR 0x22, CHR '':'', CHR '' '', CHR 0x22]
          @ ''status: down'' @ [CHR 0x22, CHR ''}'']]"
  by (simp add: Slack_Alert_posts Slack_request_def DQ_def)

text \<open>
  C6. \<^verbatim>\<open>Slack.Alert\<close> and \<^verbatim>\<open>Pushover.Alert\<close> return nil when the POST completes, whatever
  the status code of the response, and return the error of the POST as it is when the
  POST fails.
\<close>

theorem http_Alert_ignores_status:
  "(Post (Slack_request Dump s a) = Inr \<lparr>StatusCode = code, resp_body = b\<rparr>
      \<longrightarrow> returned (Slack_Alert Dump Post s a w) = None)
   \<and> (Post (Slack_request Dump s a) = Inl cause
      \<longrightarrow> returned (Slack_Alert Dump Post s a w) = Some cause)
   \<and> (Post (Pushover_request Dump p a) = Inr \<lparr>StatusCode = code, resp_body = b\<rparr>
      \<longrightarrow> returned (Pushover_Alert Dump Post p a w) = None)
   \<and> (Post (Pushover_request Dump p a) = Inl cause
      \<longrightarrow> returned (Pushover_Alert Dump Post p a w) = Some cause)"
  by (simp add: Slack_Alert_returned Pushover_Alert_returned)

theorem http_Alert_ignores_status_witness:
  "returned (Slack_Alert (Pair ''x'') (\<lambda>req. Inr \<lparr>StatusCode = 500, resp_body = ''no''\<rparr>)
      \<lparr>WebhookURL = ''https://hook''\<rparr> \<lparr>Message = ''m'', SubjectAddendums = [''web'']\<rparr>
      \<lparr>logged = [], posts = [], mails = [], closed = []\<rparr>) = None
   \<and> returned (Slack_Alert (Pair ''x'') (\<lambda>req. Inl (New ''connection refused''))
      \<lparr>WebhookURL = ''https://hook''\<rparr> \<lparr>Message = ''m'', SubjectAddendums = [''web'']\<rparr>
      \<lparr>logged = [], posts = [], mails = [], closed = []\<rparr>) = Some (New ''connection refused'')
   \<and> returned (Pushover_Alert (Pair ''x'') (\<lambda>req. Inr \<lparr>StatusCode = 500, resp_body = ''no''\<rparr>)
      \<lparr>APIToken = ''T'', UserKey = ''U'', APIURL = ''https://api''\<rparr> \<lparr>Message = ''m'', SubjectAddendums = [''web'']\<rparr>
      \<lparr>logged = [], posts = [], mails = [], closed = []\<rparr>) = None
   \<and> returned (Pushover_Alert (Pair ''x'') (\<lambda>req. Inl (New ''connection refused''))
      \<lparr>APIToken = ''T'', UserKey = ''U'', APIURL = ''https://api''\<rparr> \<lparr>Message = ''m'', SubjectAddendums = [''web'']\<rparr>
      \<lparr>logged = [], posts = [], mails = [], closed = []\<rparr>) = Some (New ''connection refused'')"
  using http_Alert_ignores_status
      [where Post = "(\<lambda>req. Inr \<lparr>StatusCode = 500, resp_body = ''no''\<rparr>)" and Dump = "Pair ''x''"
        and s = "\<lparr>WebhookURL = ''https://hook''\<rparr>" and p = "\<lparr>APIToken = ''T'', UserKey = ''U'', APIURL = ''https://api''\<rparr>"
        and a = "\<lparr>Message = ''m'', SubjectAddendums = [''web'']\<rparr>" and code = 500 and b = "''no''"
        and w = "\<lparr>logged = [], posts = [], mails = [], closed = []\<rparr>"
        and cause = "New ''connection refused''"]
    http_Alert_ignores_status
      [where Post = "(\<lambda>req. Inl (New ''connection refused''))" and Dump = "Pair ''x''"
        and s = "\<lparr>WebhookURL = ''https://hook''\<rparr>" and p = "\<lparr>APIToken = ''T'', UserKey = ''U'', APIURL = ''https://api''\<rparr>"
        and a = "\<lparr>Message = ''m'', SubjectAddendums = [''web'']\<rparr>" and code = 500 and b = "''no''"
        and w = "\<lparr>logged = [], posts = [], mails = [], closed = []\<rparr>"
        and cause = "New ''connection refused''"]
  by simp

text \<open>
  C7. If the dial-and-send step of \<^verbatim>\<open>Email.Alert\<close> fails, the call returns its error
  wrapped with the context \<^verbatim>\<open>error sending email\<close> and logs nothing; if the step
  succeeds, the call logs exactly the line \<^verbatim>\<open>alert email sent\<close> and returns nil.
\<close>

theorem Email_Alert_send_result:
  "(DialAndSend (Email_dialer e) (Email_message DumpEmail e a) = Some cause \<longrightarrow>
      returned (Email_Alert DumpEmail DialAndSend e a w)
        = Some (Wrap cause ''error sending email'')
      \<and> map_option Error (returned (Email_Alert DumpEmail DialAndSend e a w))
        = Some (''error sending email: '' @ Error cause)
      \<and> logged (world_after (Email_Alert DumpEmail DialAndSend e a w)) = logged w)
   \<and> (DialAndSend (Email_dialer e) (Email_message DumpEmail e a) = None \<longrightarrow>
      returned (Email_Alert DumpEmail DialAndSend e a w) = None
      \<and> logged (world_after (Email_Alert DumpEmail DialAndSend e a w))
        = logged w @ [''alert email sent''])"
  by (simp add: Email_Alert_returned Email_Alert_logged)

theorem Email_Alert_send_result_witness:
  "map_option Error (returned (Email_Alert (Pair ''<p>down</p>'') (\<lambda>d m. Some (New ''dial tcp: timeout''))
      \<lparr>SMTP = ''smtp.example.com'', Username = ''user'', Password = ''pw'', Port = ''587'',
       From = ''a@example.com'', To = Some [''ops@example.com''], Subject = ''ALERT''\<rparr>
      \<lparr>Message = ''m'', SubjectAddendums = [''web'']\<rparr>
      \<lparr>logged = [], posts = [], mails = [], closed = []\<rparr>))
    = Some ''error sending email: dial tcp: timeout''
   \<and> logged (world_after (Email_Alert (Pair ''<p>down</p>'') (\<lambda>d m. Some (New ''dial tcp: timeout''))
      \<lparr>SMTP = ''smtp.example.com'', Username = ''user'', Password = ''pw'', Port = ''587'',
       From = ''a@example.com'', To = Some [''ops@example.com''], Subject = ''ALERT''\<rparr>
      \<lparr>Message = ''m'', SubjectAddendums = [''web'']\<rparr>
      \<lparr>logged = [], posts = [], mails = [], closed = []\<rparr>)) = []
   \<and> returned (Email_Alert (Pair ''<p>down</p>'') (\<lambda>d m. None)
      \<lparr>SMTP = ''smtp.example.com'', Username = ''user'', Password = ''pw'', Port = ''587'',
       From = ''a@example.com'', To = Some [''ops@example.com''], Subject = ''ALERT''\<rparr>
      \<lparr>Message = ''m'', SubjectAddendums = [''web'']\<rparr>
      \<lparr>logged = [], posts = [], mails = [], closed = []\<rparr>) = None
   \<and> logged (world_after (Email_Alert (Pair ''<p>down</p>'') (\<lambda>d m. None)
      \<lparr>SMTP = ''smtp.example.com'', Username = ''user'', Password = ''pw'', Port = ''587'',
       From = ''a@example.com'', To = Some [''ops@example.com''], Subject = ''ALERT''\<rparr>
      \<lparr>Message = ''m'', SubjectAddendums = [''web'']\<rparr>
      \<lparr>logged = [], posts = [], mails = [], closed = []\<rparr>)) = [''alert email sent'']"
  using Email_Alert_send_result
      [where DialAndSend = "(\<lambda>d m. Some (New ''dial tcp: timeout''))" and DumpEmail = "Pair ''<p>down</p>''"
        and cause = "New ''dial tcp: timeout''"
        and e = "\<lparr>SMTP = ''smtp.example.com'', Username = ''user'', Password = ''pw'', Port = ''587'',
       From = ''a@example.com'', To = Some [''ops@example.com''], Subject = ''ALERT''\<rparr>"
        and a = "\<lparr>Message = ''m'', SubjectAddendums = [''web'']\<rparr>"
        and w = "\<lparr>logged = [], posts = [], mails = [], closed = []\<rparr>"]
    Email_Alert_send_result
      [where DialAndSend = "(\<lambda>d m. None)" and DumpEmail = "Pair ''<p>down</p>''"
        and cause = "New ''dial tcp: timeout''"
        and e = "\<lparr>SMTP = ''smtp.example.com'', Username = ''user'', Password = ''pw'', Port = ''587'',
       From = ''a@example.com'', To = Some [''ops@example.com''], Subject = ''ALERT''\<rparr>"
        and a = "\<lparr>Message = ''m'', SubjectAddendums = [''web'']\<rparr>"
        and w = "\<lparr>logged = [], posts = [], mails = [], closed = []\<rparr>"]
  by simp

text \<open>
  C8. No alerter changes the alert. With \<^verbatim>\<open>Dump\<close> and \<^verbatim>\<open>DumpEmail\<close> the read-only
  renderings of the spec, whatever they render, the alert after \<^verbatim>\<open>Alert\<close> of each of the
  three alerters is the alert before it, whether the call succeeds or fails (for every
  answer of the SMTP server and of the HTTP server). And for any \<^verbatim>\<open>Dump\<close> and
  \<^verbatim>\<open>DumpEmail\<close> at all, the alert after \<^verbatim>\<open>Alert\<close> is the alert as the one call of the
  rendering method leaves it: the alerter writes nothing to it.
\<close>

theorem Alert_leaves_alert:
  "alert_after (Email_Alert (read_only html) DialAndSend e a w) = a
   \<and> alert_after (Slack_Alert (read_only plain) Post s a w) = a
   \<and> alert_after (Pushover_Alert (read_only plain) Post p a w) = a
   \<and> alert_after (Email_Alert DumpEmail DialAndSend e a w) = snd (DumpEmail a)
   \<and> alert_after (Slack_Alert Dump Post s a w) = snd (Dump a)
   \<and> alert_after (Pushover_Alert Dump Post p a w) = snd (Dump a)"
  by (simp add: Email_Alert_alert_after Slack_Alert_alert_after Pushover_Alert_alert_after
      read_only_def)

text \<open>
  C9. \<^verbatim>\<open>Slack.Valid\<close> returns nil for every Slack configuration: a configuration is the
  zero value exactly when its webhook URL is empty, so the check of the URL is never
  reached with an empty URL.
\<close>

theorem Slack_Valid_always_nil:
  "Slack_Valid msg s = None \<and> (Slack_zero = s) = (WebhookURL s = [])"
  by (simp add: Slack_Valid_def Slack_zero_iff)

text \<open>
  C10, as claimed, fails. The \<^verbatim>\<open>Port\<close> \<^verbatim>\<open>99999999999999999999x\<close> is not numeric, and
  \<^verbatim>\<open>strconv.Atoi\<close> gives a range error for it, since its digits overflow before the last
  byte is read: \<^verbatim>\<open>Email.Alert\<close> dials with the port 9223372036854775807, and not with 0.
  And a dial-and-send step that refuses a port outside 0 to 65535 makes \<^verbatim>\<open>Email.Alert\<close>
  with the \<^verbatim>\<open>Port\<close> \<^verbatim>\<open>-1\<close> return an error about the port.
\<close>

theorem Email_Alert_port_counterexample:
  "\<not> numeric ''99999999999999999999x''
   \<and> snd (Atoi ''99999999999999999999x'') = Some ErrRange
   \<and> dPort (Email_dialer
      \<lparr>SMTP = ''smtp.example.com'', Username = ''user'', Password = ''pw'',
       Port = ''99999999999999999999x'', From = ''a@example.com'', To = Some [''ops@example.com''],
       Subject = ''ALERT''\<rparr>) = 9223372036854775807
   \<and> dPort (Email_dialer
      \<lparr>SMTP = ''smtp.example.com'', Username = ''user'', Password = ''pw'',
       Port = ''99999999999999999999x'', From = ''a@example.com'', To = Some [''ops@example.com''],
       Subject = ''ALERT''\<rparr>) \<noteq> 0
   \<and> map_option Error (returned (Email_Alert (Pair ''<p>down</p>'')
      (\<lambda>d m. if dPort d < 0 \<or> 65535 < dPort d
                then Some (New ''dial tcp: invalid port'') else None)
      \<lparr>SMTP = ''smtp.example.com'', Username = ''user'', Password = ''pw'',
       Port = ''-1'', From = ''a@example.com'', To = Some [''ops@example.com''],
       Subject = ''ALERT''\<rparr>
      \<lparr>Message = ''m'', SubjectAddendums = [''web'']\<rparr>
      \<lparr>logged = [], posts = [], mails = [], closed = []\<rparr>))
     = Some ''error sending email: dial tcp: invalid port''"
  by (simp add: Email_Alert_returned Email_dialer_def NewPlainDialer_def Atoi_def ParseInt_def
      ParseUint_def numeric_def is_digit_def Let_def)

text \<open>
  C10, amended. \<^verbatim>\<open>Email.Valid\<close> accepts any non-empty \<^verbatim>\<open>Port\<close> without checking that it
  is numeric: its result is that for the port 25, and it is nil when the other fields
  are there. \<^verbatim>\<open>Email.Alert\<close> drops the error of \<^verbatim>\<open>strconv.Atoi\<close> and dials with the
  integer that \<^verbatim>\<open>Atoi\<close> returns with it: 0 after a syntax error, the largest or the
  smallest \<^verbatim>\<open>int\<close> after a range error; a \<^verbatim>\<open>Port\<close> that is not numeric always gives one
  of the two errors, and so one of these three ports. Two values of \<^verbatim>\<open>Port\<close> for which
  \<^verbatim>\<open>Atoi\<close> returns the same integer give the same \<^verbatim>\<open>Alert\<close>, with or without a parse
  error. What \<^verbatim>\<open>Email.Alert\<close> returns is nil or the wrapped error of the dial-and-send
  step, which may be about the port that was dialled, and never the error of the parse.
\<close>

theorem Email_port_parse_error_dropped:
  "(port \<noteq> [] \<longrightarrow>
      Email_Valid msg (e\<lparr>Port := port\<rparr>) = Email_Valid msg (e\<lparr>Port := ''25''\<rparr>))
   \<and> (SMTP e \<noteq> [] \<and> elems (To e) \<noteq> [] \<and> From e \<noteq> [] \<and> Username e \<noteq> []
        \<and> Password e \<noteq> [] \<and> Port e \<noteq> [] \<and> Subject e \<noteq> [] \<longrightarrow>
      Email_Valid msg e = None)
   \<and> Email_dialer e = NewPlainDialer (SMTP e) (fst (Atoi (Port e))) (Username e) (Password e)
   \<and> dPort (Email_dialer e) = fst (Atoi (Port e))
   \<and> (snd (Atoi (Port e)) = Some ErrSyntax \<longrightarrow> dPort (Email_dialer e) = 0)
   \<and> (snd (Atoi (Port e)) = Some ErrRange \<longrightarrow>
        dPort (Email_dialer e) = 2 ^ 63 - 1 \<or> dPort (Email_dialer e) = - (2 ^ 63))
   \<and> (\<not> numeric (Port e) \<longrightarrow>
        snd (Atoi (Port e)) \<noteq> None
        \<and> (dPort (Email_dialer e) = 0 \<or> dPort (Email_dialer e) = 2 ^ 63 - 1
             \<or> dPort (Email_dialer e) = - (2 ^ 63)))
   \<and> mails (world_after (Email_Alert DumpEmail DialAndSend e a w))
        = mails w @ [(Email_dialer e, Email_message DumpEmail e a)]
   \<and> (fst (Atoi port) = fst (Atoi port') \<longrightarrow>
        Email_Alert DumpEmail DialAndSend (e\<lparr>Port := port\<rparr>) a w
          = Email_Alert DumpEmail DialAndSend (e\<lparr>Port := port'\<rparr>) a w)
   \<and> returned (Email_Alert DumpEmail DialAndSend e a w) =
        (case DialAndSend (Email_dialer e) (Email_message DumpEmail e a) of
           None \<Rightarrow> None
         | Some cause \<Rightarrow> Some (Wrap cause ''error sending email''))"
proof -
  have valid: "port \<noteq> [] \<longrightarrow>
      Email_Valid msg (e\<lparr>Port := port\<rparr>) = Email_Valid msg (e\<lparr>Port := ''25''\<rparr>)"
    using Email_Valid_Port by blast
  have full: "SMTP e \<noteq> [] \<and> elems (To e) \<noteq> [] \<and> From e \<noteq> [] \<and> Username e \<noteq> []
        \<and> Password e \<noteq> [] \<and> Port e \<noteq> [] \<and> Subject e \<noteq> [] \<longrightarrow>
      Email_Valid msg e = None"
    by (simp add: Email_Valid_def Email_errString_def)
  have dialer: "Email_dialer e =
      NewPlainDialer (SMTP e) (fst (Atoi (Port e))) (Username e) (Password e)"
    by (simp add: Email_dialer_def Let_def)
  have port: "dPort (Email_dialer e) = fst (Atoi (Port e))"
    by (simp add: dialer NewPlainDialer_def)
  have syn: "snd (Atoi (Port e)) = Some ErrSyntax \<longrightarrow> dPort (Email_dialer e) = 0"
    using Atoi_syntax_zero [of "Port e"] by (simp add: port)
  have rng: "snd (Atoi (Port e)) = Some ErrRange \<longrightarrow>
        dPort (Email_dialer e) = 2 ^ 63 - 1 \<or> dPort (Email_dialer e) = - (2 ^ 63)"
    using Atoi_range_bound [of "Port e"] by (simp add: port)
  have nonnum: "\<not> numeric (Port e) \<longrightarrow>
        snd (Atoi (Port e)) \<noteq> None
        \<and> (dPort (Email_dialer e) = 0 \<or> dPort (Email_dialer e) = 2 ^ 63 - 1
             \<or> dPort (Email_dialer e) = - (2 ^ 63))"
  proof
    assume nn: "\<not> numeric (Port e)"
    have err: "snd (Atoi (Port e)) \<noteq> None"
      using nn Atoi_numeric [of "Port e"] by blast
    from Atoi_error_cases [OF err] err
    show "snd (Atoi (Port e)) \<noteq> None
        \<and> (dPort (Email_dialer e) = 0 \<or> dPort (Email_dialer e) = 2 ^ 63 - 1
             \<or> dPort (Email_dialer e) = - (2 ^ 63))"
      by (simp add: port)
  qed
  have sent: "mails (world_after (Email_Alert DumpEmail DialAndSend e a w))
            = mails w @ [(Email_dialer e, Email_message DumpEmail e a)]"
    by (rule Email_Alert_mails)
  have same: "fst (Atoi port) = fst (Atoi port') \<longrightarrow>
        Email_Alert DumpEmail DialAndSend (e\<lparr>Port := port\<rparr>) a w
          = Email_Alert DumpEmail DialAndSend (e\<lparr>Port := port'\<rparr>) a w"
    using Email_Alert_Port by blast
  have ret: "returned (Email_Alert DumpEmail DialAndSend e a w) =
        (case DialAndSend (Email_dialer e) (Email_message DumpEmail e a) of
           None \<Rightarrow> None
         | Some cause \<Rightarrow> Some (Wrap cause ''error sending email''))"
    by (rule Email_Alert_returned)
  from valid full dialer port syn rng nonnum sent same ret show ?thesis by blast
qed

theorem Email_port_parse_error_dropped_witness:
  "Email_Valid (\<lambda>s. ''missing'')
      \<lparr>SMTP = ''smtp.example.com'', Username = ''user'', Password = ''pw'',
       Port = ''smtp'', From = ''a@example.com'', To = Some [''ops@example.com''],
       Subject = ''ALERT''\<rparr> = None
   \<and> \<not> numeric ''smtp''
   \<and> snd (Atoi ''smtp'') = Some ErrSyntax
   \<and> dPort (Email_dialer
      \<lparr>SMTP = ''smtp.example.com'', Username = ''user'', Password = ''pw'',
       Port = ''smtp'', From = ''a@example.com'', To = Some [''ops@example.com''],
       Subject = ''ALERT''\<rparr>) = 0
   \<and> snd (Atoi ''99999999999999999999'') = Some ErrRange
   \<and> dPort (Email_dialer
      \<lparr>SMTP = ''smtp.example.com'', Username = ''user'', Password = ''pw'',
       Port = ''99999999999999999999'', From = ''a@example.com'', To = Some [''ops@example.com''],
       Subject = ''ALERT''\<rparr>) = 2 ^ 63 - 1
   \<and> Email_Alert (Pair ''<p>down</p>'')
      (\<lambda>d m. if dPort d < 0 \<or> 65535 < dPort d
                then Some (New ''dial tcp: invalid port'') else None)
      \<lparr>SMTP = ''smtp.example.com'', Username = ''user'', Password = ''pw'',
       Port = ''smtp'', From = ''a@example.com'', To = Some [''ops@example.com''],
       Subject = ''ALERT''\<rparr>
      \<lparr>Message = ''m'', SubjectAddendums = [''web'']\<rparr>
      \<lparr>logged = [], posts = [], mails = [], closed = []\<rparr>
     = Email_Alert (Pair ''<p>down</p>'')
      (\<lambda>d m. if dPort d < 0 \<or> 65535 < dPort d
                then Some (New ''dial tcp: invalid port'') else None)
      \<lparr>SMTP = ''smtp.example.com'', Username = ''user'', Password = ''pw'',
       Port = ''0'', From = ''a@example.com'', To = Some [''ops@example.com''],
       Subject = ''ALERT''\<rparr>
      \<lparr>Message = ''m'', SubjectAddendums = [''web'']\<rparr>
      \<lparr>logged = [], posts = [], mails = [], closed = []\<rparr>
   \<and> returned (Email_Alert (Pair ''<p>down</p>'')
      (\<lambda>d m. if dPort d < 0 \<or> 65535 < dPort d
                then Some (New ''dial tcp: invalid port'') else None)
      \<lparr>SMTP = ''smtp.example.com'', Username = ''user'', Password = ''pw'',
       Port = ''smtp'', From = ''a@example.com'', To = Some [''ops@example.com''],
       Subject = ''ALERT''\<rparr>
      \<lparr>Message = ''m'', SubjectAddendums = [''web'']\<rparr>
      \<lparr>logged = [], posts = [], mails = [], closed = []\<rparr>) = None"
proof -
  have nn: "\<not> numeric ''smtp''"
    by (simp add: numeric_def is_digit_def)
  have syn: "snd (Atoi ''smtp'') = Some ErrSyntax"
    by (simp add: Atoi_def)
  have zero: "fst (Atoi ''smtp'') = fst (Atoi ''0'')"
    by (simp add: Atoi_def)
  have rng: "snd (Atoi ''99999999999999999999'') = Some ErrRange"
    by (simp add: Atoi_def ParseInt_def ParseUint_def)
  note at_smtp = Email_port_parse_error_dropped
        [where port = "''smtp''" and port' = "''0''" and msg = "\<lambda>s. ''missing''"
          and DumpEmail = "Pair ''<p>down</p>''"
          and DialAndSend = "(\<lambda>d m. if dPort d < 0 \<or> 65535 < dPort d
                then Some (New ''dial tcp: invalid port'') else None)"
          and e = "\<lparr>SMTP = ''smtp.example.com'', Username = ''user'', Password = ''pw'',
       Port = ''smtp'', From = ''a@example.com'', To = Some [''ops@example.com''],
       Subject = ''ALERT''\<rparr>"
          and a = "\<lparr>Message = ''m'', SubjectAddendums = [''web'']\<rparr>"
          and w = "\<lparr>logged = [], posts = [], mails = [], closed = []\<rparr>"]
  note at_big = Email_port_parse_error_dropped
        [where port = "''smtp''" and port' = "''0''" and msg = "\<lambda>s. ''missing''"
          and DumpEmail = "Pair ''<p>down</p>''"
          and DialAndSend = "(\<lambda>d m. if dPort d < 0 \<or> 65535 < dPort d
                then Some (New ''dial tcp: invalid port'') else None)"
          and e = "\<lparr>SMTP = ''smtp.example.com'', Username = ''user'', Password = ''pw'',
       Port = ''99999999999999999999'', From = ''a@example.com'', To = Some [''ops@example.com''],
       Subject = ''ALERT''\<rparr>"
          and a = "\<lparr>Message = ''m'', SubjectAddendums = [''web'']\<rparr>"
          and w = "\<lparr>logged = [], posts = [], mails = [], closed = []\<rparr>"]
  have big: "dPort (Email_dialer
      \<lparr>SMTP = ''smtp.example.com'', Username = ''user'', Password = ''pw'',
       Port = ''99999999999999999999'', From = ''a@example.com'', To = Some [''ops@example.com''],
       Subject = ''ALERT''\<rparr>) = 2 ^ 63 - 1"
    by (simp add: Email_dialer_def NewPlainDialer_def Atoi_def ParseInt_def ParseUint_def
        Let_def)
  have v25: "Email_Valid (\<lambda>s. ''missing'')
      \<lparr>SMTP = ''smtp.example.com'', Username = ''user'', Password = ''pw'',
       Port = ''25'', From = ''a@example.com'', To = Some [''ops@example.com''],
       Subject = ''ALERT''\<rparr> = None"
    by (simp add: Email_Valid_def Email_zero_def Email_errString_def)
  have ret0: "returned (Email_Alert (Pair ''<p>down</p>'')
      (\<lambda>d m. if dPort d < 0 \<or> 65535 < dPort d
                then Some (New ''dial tcp: invalid port'') else None)
      \<lparr>SMTP = ''smtp.example.com'', Username = ''user'', Password = ''pw'',
       Port = ''0'', From = ''a@example.com'', To = Some [''ops@example.com''],
       Subject = ''ALERT''\<rparr>
      \<lparr>Message = ''m'', SubjectAddendums = [''web'']\<rparr>
      \<lparr>logged = [], posts = [], mails = [], closed = []\<rparr>) = None"
    by (simp add: Email_Alert_returned Email_dialer_def NewPlainDialer_def Atoi_def Let_def)
  show ?thesis
    using nn syn zero rng big v25 ret0 at_smtp at_big
    by (simp add: NewPlainDialer_def)
qed

end
